theory Spec2Isabelle
  imports Main
begin

section \<open>Python strings and \<open>str.strip\<close>\<close>

text \<open>
  A Python \<open>str\<close> is a sequence of Unicode code points, so it is modelled as a list of
  natural numbers (one per code point). \<open>isspace\<close> lists the code points that
  \<open>str.strip()\<close> without arguments removes: the characters for which
  \<open>str.isspace\<close> holds.
\<close>

type_synonym pystr = "nat list"

definition isspace :: "nat \<Rightarrow> bool" where
  "isspace c \<longleftrightarrow>
     c \<in> {9, 10, 11, 12, 13, 28, 29, 30, 31, 32, 133, 160, 5760,
          8192, 8193, 8194, 8195, 8196, 8197, 8198, 8199, 8200, 8201, 8202,
          8232, 8233, 8239, 8287, 12288}"

definition lstrip :: "pystr \<Rightarrow> pystr" where
  "lstrip s = dropWhile isspace s"

definition rstrip :: "pystr \<Rightarrow> pystr" where
  "rstrip s = rev (dropWhile isspace (rev s))"

definition strip :: "pystr \<Rightarrow> pystr" where
  "strip s = rstrip (lstrip s)"

text \<open>Truthiness of an optional string (\<open>if path:\<close>): neither \<open>None\<close> nor empty.\<close>

fun truthy_str :: "pystr option \<Rightarrow> bool" where
  "truthy_str None = False"
| "truthy_str (Some s) = (s \<noteq> [])"

text \<open>Truthiness of an optional integer (\<open>if recipe_id:\<close>): neither \<open>None\<close> nor 0.\<close>

fun truthy_int :: "int option \<Rightarrow> bool" where
  "truthy_int None = False"
| "truthy_int (Some n) = (n \<noteq> 0)"

section \<open>Data layer: \<open>model/database.py\<close>\<close>

text \<open>
  The table \<open>recipes\<close> is a list of raw rows
  \<open>(id, title, ingredients, instructions, image_path)\<close> in the order in which
  \<open>SELECT * FROM recipes\<close> returns them. The three text columns hold the strings the
  callers pass (form text or literals); \<open>image_path\<close> is a string or \<open>None\<close>.
  With a string for the title the \<open>NOT NULL\<close> constraint of the column cannot fail, so
  none of the four statements has an error result.

  The column \<open>id\<close> is declared \<open>INTEGER PRIMARY KEY AUTOINCREMENT\<close>. For such a
  column SQLite keeps, in its table \<open>sqlite_sequence\<close>, the largest id it has ever
  assigned to the table, and gives a row inserted without an id one more than the larger
  of that number and the largest id present in the table. The second field of the
  database state is this counter. Ids are unbounded integers here: the 64-bit limit of
  SQLite's row ids is out of reach of a store that is filled one row at a time.
\<close>

type_synonym row = "int \<times> pystr \<times> pystr \<times> pystr \<times> pystr option"

record db_state =
  recipes :: "row list"
  sqlite_sequence :: int

text \<open>\<open>RecipeDatabase.__init__\<close> on a file that does not exist yet: an empty table.\<close>

definition empty_db :: db_state where
  "empty_db = \<lparr>recipes = [], sqlite_sequence = 0\<rparr>"

text \<open>\<open>CREATE TABLE IF NOT EXISTS\<close> leaves an existing table as it is.\<close>

definition create_table :: "db_state \<Rightarrow> db_state" where
  "create_table d = d"

fun max_rowid :: "row list \<Rightarrow> int" where
  "max_rowid [] = 0"
| "max_rowid (r # rs) = max (fst r) (max_rowid rs)"

definition next_rowid :: "db_state \<Rightarrow> int" where
  "next_rowid d = max (sqlite_sequence d) (max_rowid (recipes d)) + 1"

text \<open>
  \<open>RecipeDatabase.insert_recipe\<close>: the \<open>INSERT\<close> statement and the commit. The method
  has no \<open>return\<close> statement, so its Python result is \<open>None\<close>; the first component
  of the pair is that result (an id would be \<open>Some n\<close>), the second the new state.
\<close>

definition db_insert_recipe ::
  "pystr \<Rightarrow> pystr \<Rightarrow> pystr \<Rightarrow> pystr option \<Rightarrow> db_state \<Rightarrow> int option \<times> db_state" where
  "db_insert_recipe title ingredients instructions image_path d =
     (let n = next_rowid d
      in (None, \<lparr>recipes = recipes d @ [(n, title, ingredients, instructions, image_path)],
                 sqlite_sequence = n\<rparr>))"

text \<open>\<open>RecipeDatabase.get_all_recipes\<close>: \<open>SELECT * FROM recipes\<close>, \<open>fetchall()\<close>.\<close>

definition db_get_all_recipes :: "db_state \<Rightarrow> row list" where
  "db_get_all_recipes d = recipes d"

text \<open>\<open>RecipeDatabase.update_recipe\<close>: \<open>UPDATE ... SET ... WHERE id = ?\<close>.\<close>

definition db_update_recipe ::
  "int \<Rightarrow> pystr \<Rightarrow> pystr \<Rightarrow> pystr \<Rightarrow> pystr option \<Rightarrow> db_state \<Rightarrow> db_state" where
  "db_update_recipe recipe_id title ingredients instructions image_path d =
     d\<lparr>recipes :=
         map (\<lambda>r. if fst r = recipe_id
                   then (fst r, title, ingredients, instructions, image_path) else r)
             (recipes d)\<rparr>"

text \<open>\<open>RecipeDatabase.delete_recipe\<close>: \<open>DELETE FROM recipes WHERE id=?\<close>.\<close>

definition db_delete_recipe :: "int \<Rightarrow> db_state \<Rightarrow> db_state" where
  "db_delete_recipe recipe_id d =
     d\<lparr>recipes := filter (\<lambda>r. fst r \<noteq> recipe_id) (recipes d)\<rparr>"

section \<open>Model layer: \<open>model/recipe_model.py\<close>\<close>

record Recipe =
  id' :: int
  title :: pystr
  ingredients :: pystr
  instructions :: pystr
  image_path :: "pystr option"

text \<open>\<open>Recipe(*row)\<close>: the positional unpacking of a raw row.\<close>

fun Recipe_of_row :: "row \<Rightarrow> Recipe" where
  "Recipe_of_row (i, t, g, s, p) =
     \<lparr>id' = i, title = t, ingredients = g, instructions = s, image_path = p\<rparr>"

text \<open>
  \<open>RecipeModel.add_recipe\<close> passes its arguments to the data layer as they are and
  returns nothing.
\<close>

definition add_recipe ::
  "pystr \<Rightarrow> pystr \<Rightarrow> pystr \<Rightarrow> pystr option \<Rightarrow> db_state \<Rightarrow> int option \<times> db_state" where
  "add_recipe t g s p d = (None, snd (db_insert_recipe t g s p d))"

definition get_all_recipes :: "db_state \<Rightarrow> Recipe list" where
  "get_all_recipes d = map Recipe_of_row (db_get_all_recipes d)"

text \<open>The loop of \<open>RecipeModel.get_recipe_by_id\<close> over the list of all recipes.\<close>

fun scan_recipes :: "Recipe list \<Rightarrow> int \<Rightarrow> Recipe option" where
  "scan_recipes [] recipe_id = None"
| "scan_recipes (recipe # rest) recipe_id =
     (if id' recipe = recipe_id then Some recipe else scan_recipes rest recipe_id)"

definition get_recipe_by_id :: "db_state \<Rightarrow> int \<Rightarrow> Recipe option" where
  "get_recipe_by_id d recipe_id = scan_recipes (get_all_recipes d) recipe_id"

definition update_recipe :: "Recipe \<Rightarrow> db_state \<Rightarrow> db_state" where
  "update_recipe recipe d =
     db_update_recipe (id' recipe) (title recipe) (ingredients recipe)
       (instructions recipe) (image_path recipe) d"

definition delete_recipe :: "int \<Rightarrow> db_state \<Rightarrow> db_state" where
  "delete_recipe recipe_id d = db_delete_recipe recipe_id d"

section \<open>View layer: the state of \<open>view/main_window.py\<close>\<close>

text \<open>
  The widgets are reduced to what the controller reads and writes: the text of the three
  input fields, what the image label shows, which of the three buttons that
  \<open>set_mode\<close> switches are enabled, the items of the list widget (text and the id
  stored under the user role) with the current item, and the three attributes
  \<open>_selected_image_path\<close>, \<open>_current_recipe_id\<close> and \<open>mode\<close>. The mode strings
  \<open>"add"\<close>, \<open>"edit"\<close> and \<open>"view"\<close> are the constructors of \<open>mode\<close>.
\<close>

datatype mode = Add | Edit | View

datatype label = NoImageSelected | Pixmap pystr

record RecipeMainWindow =
  title_input :: pystr
  ingredients_input :: pystr
  instructions_input :: pystr
  image_label :: label
  add_button_enabled :: bool
  save_button_enabled :: bool
  cancel_button_enabled :: bool
  recipe_list :: "(pystr \<times> int) list"
  current_item :: "(pystr \<times> int) option"
  selected_image_path :: "pystr option"
  current_recipe_id :: "int option"
  mode :: mode

fun set_mode :: "mode \<Rightarrow> RecipeMainWindow \<Rightarrow> RecipeMainWindow" where
  "set_mode Add v =
     v\<lparr>mode := Add, add_button_enabled := True, save_button_enabled := False,
       cancel_button_enabled := False\<rparr>"
| "set_mode Edit v =
     v\<lparr>mode := Edit, add_button_enabled := False, save_button_enabled := True,
       cancel_button_enabled := True\<rparr>"
| "set_mode View v =
     v\<lparr>mode := View, add_button_enabled := True, save_button_enabled := False,
       cancel_button_enabled := False\<rparr>"

definition get_input_data ::
  "RecipeMainWindow \<Rightarrow> pystr \<times> pystr \<times> pystr \<times> pystr option" where
  "get_input_data v =
     (title_input v, ingredients_input v, instructions_input v, selected_image_path v)"

definition clear_inputs :: "RecipeMainWindow \<Rightarrow> RecipeMainWindow" where
  "clear_inputs v =
     set_mode Add
       (v\<lparr>title_input := [], ingredients_input := [], instructions_input := [],
          image_label := NoImageSelected, selected_image_path := None,
          current_recipe_id := None\<rparr>)"

text \<open>
  \<open>set_image_path\<close>: whether the file loads as an image (\<open>pixmap.isNull()\<close>) is decided
  outside the program and is a parameter.
\<close>

definition set_image_path :: "pystr \<Rightarrow> bool \<Rightarrow> RecipeMainWindow \<Rightarrow> RecipeMainWindow" where
  "set_image_path path pixmap_is_null v =
     (let v1 = v\<lparr>selected_image_path := Some path\<rparr>
      in if \<not> pixmap_is_null then v1\<lparr>image_label := Pixmap path\<rparr> else v1)"

text \<open>
  \<open>update_recipe_list\<close>: clearing the list widget leaves it without a current item, and
  the handler connected to its selection signal does nothing when there is no current
  item (see \<open>display_selected_recipe\<close> below).
\<close>

definition update_recipe_list :: "Recipe list \<Rightarrow> RecipeMainWindow \<Rightarrow> RecipeMainWindow" where
  "update_recipe_list rs v =
     v\<lparr>recipe_list := map (\<lambda>recipe. (title recipe, id' recipe)) rs, current_item := None\<rparr>"

definition get_selected_recipe_id :: "RecipeMainWindow \<Rightarrow> int option" where
  "get_selected_recipe_id v =
     (case current_item v of Some item \<Rightarrow> Some (snd item) | None \<Rightarrow> None)"

definition get_current_recipe_id :: "RecipeMainWindow \<Rightarrow> int option" where
  "get_current_recipe_id v = current_recipe_id v"

definition show_recipe_details :: "Recipe \<Rightarrow> RecipeMainWindow \<Rightarrow> RecipeMainWindow" where
  "show_recipe_details recipe v =
     (let v1 = v\<lparr>current_recipe_id := Some (id' recipe), title_input := title recipe,
                 ingredients_input := ingredients recipe,
                 instructions_input := instructions recipe\<rparr>
      in if truthy_str (image_path recipe)
         then v1\<lparr>image_label := Pixmap (the (image_path recipe)),
                 selected_image_path := image_path recipe\<rparr>
         else v1\<lparr>image_label := NoImageSelected, selected_image_path := None\<rparr>)"

section \<open>Controller layer: \<open>controller/recipe_controller.py\<close>\<close>

text \<open>
  The controller owns the model (whose state is the database) and the view. Each handler
  is a function on this pair. The controller's \<open>add_recipe\<close> is named
  \<open>add_recipe_clicked\<close> here, the model's method keeps the name \<open>add_recipe\<close>.
\<close>

record RecipeController =
  model :: db_state
  view :: RecipeMainWindow

definition refresh_recipe_list :: "RecipeController \<Rightarrow> RecipeController" where
  "refresh_recipe_list c = c\<lparr>view := update_recipe_list (get_all_recipes (model c)) (view c)\<rparr>"

definition add_recipe_clicked :: "RecipeController \<Rightarrow> RecipeController" where
  "add_recipe_clicked c =
     (if mode (view c) \<noteq> Add
      then c\<lparr>view := set_mode Add (clear_inputs (view c))\<rparr>
      else
        (case get_input_data (view c) of (t, g, s, p) \<Rightarrow>
           if strip t = [] then c
           else
             (let c1 = c\<lparr>model := snd (add_recipe (strip t) (strip g) (strip s) p (model c))\<rparr>;
                  c2 = refresh_recipe_list c1
              in c2\<lparr>view := clear_inputs (view c2)\<rparr>)))"

definition edit_selected_recipe :: "RecipeController \<Rightarrow> RecipeController" where
  "edit_selected_recipe c =
     (case get_selected_recipe_id (view c) of
        None \<Rightarrow> c
      | Some recipe_id \<Rightarrow>
          (case get_recipe_by_id (model c) recipe_id of
             None \<Rightarrow> c
           | Some recipe \<Rightarrow> c\<lparr>view := set_mode Edit (show_recipe_details recipe (view c))\<rparr>))"

definition save_edited_recipe :: "RecipeController \<Rightarrow> RecipeController" where
  "save_edited_recipe c =
     (case get_current_recipe_id (view c) of
        None \<Rightarrow> c
      | Some recipe_id \<Rightarrow>
          (case get_input_data (view c) of (t, g, s, p) \<Rightarrow>
             if strip t = [] then c
             else
               (let updated_recipe =
                      \<lparr>id' = recipe_id, title = strip t, ingredients = strip g,
                       instructions = strip s, image_path = p\<rparr>;
                    c1 = c\<lparr>model := update_recipe updated_recipe (model c)\<rparr>;
                    c2 = refresh_recipe_list c1;
                    c3 = (case get_recipe_by_id (model c2) recipe_id of
                            None \<Rightarrow> c2
                          | Some recipe \<Rightarrow> c2\<lparr>view := show_recipe_details recipe (view c2)\<rparr>)
                in c3\<lparr>view := set_mode View (view c3)\<rparr>)))"

definition cancel_edit :: "RecipeController \<Rightarrow> RecipeController" where
  "cancel_edit c =
     (let recipe_id = get_current_recipe_id (view c);
          c1 = (if truthy_int recipe_id
                then (case get_recipe_by_id (model c) (the recipe_id) of
                        None \<Rightarrow> c
                      | Some recipe \<Rightarrow> c\<lparr>view := show_recipe_details recipe (view c)\<rparr>)
                else c\<lparr>view := clear_inputs (view c)\<rparr>)
      in c1\<lparr>view := set_mode Add (view c1)\<rparr>)"

definition delete_selected_recipe :: "RecipeController \<Rightarrow> RecipeController" where
  "delete_selected_recipe c =
     (case get_selected_recipe_id (view c) of
        None \<Rightarrow> c
      | Some recipe_id \<Rightarrow>
          (let c1 = c\<lparr>model := delete_recipe recipe_id (model c)\<rparr>;
               c2 = c1\<lparr>view := clear_inputs (view c1)\<rparr>
           in refresh_recipe_list c2))"

definition display_selected_recipe :: "RecipeController \<Rightarrow> RecipeController" where
  "display_selected_recipe c =
     (let recipe_id = get_selected_recipe_id (view c)
      in if truthy_int recipe_id
         then (case get_recipe_by_id (model c) (the recipe_id) of
                 None \<Rightarrow> c
               | Some recipe \<Rightarrow> c\<lparr>view := set_mode View (show_recipe_details recipe (view c))\<rparr>)
         else c)"

text \<open>
  \<open>select_image\<close>: the path chosen in the file dialog (empty when the dialog is
  cancelled) and whether it loads as an image come from outside.
\<close>

definition select_image :: "pystr \<Rightarrow> bool \<Rightarrow> RecipeController \<Rightarrow> RecipeController" where
  "select_image file_path pixmap_is_null c =
     (if file_path \<noteq> [] then c\<lparr>view := set_image_path file_path pixmap_is_null (view c)\<rparr>
      else c)"

text \<open>
  The signal connections of \<open>RecipeController.__init__\<close>: one intent per connected
  signal, dispatched to its handler.
\<close>

datatype intent =
  AddClicked | EditClicked | SaveClicked | CancelClicked | DeleteClicked
  | ImageClicked pystr bool | ItemSelectionChanged

fun handle :: "intent \<Rightarrow> RecipeController \<Rightarrow> RecipeController" where
  "handle AddClicked c = add_recipe_clicked c"
| "handle EditClicked c = edit_selected_recipe c"
| "handle SaveClicked c = save_edited_recipe c"
| "handle CancelClicked c = cancel_edit c"
| "handle DeleteClicked c = delete_selected_recipe c"
| "handle (ImageClicked file_path pixmap_is_null) c = select_image file_path pixmap_is_null c"
| "handle ItemSelectionChanged c = display_selected_recipe c"

section \<open>Definitions used to state the properties\<close>

text \<open>
  The keyed lookup that the specification allows in place of the linear scan, following
  its words (``a direct keyed store lookup'', ``primary-key point query''): the query
  \<open>SELECT * FROM recipes WHERE id = ?\<close> followed by \<open>fetchone()\<close>, that is the first
  row selected by the key, or nothing.
\<close>

definition keyed_lookup_spec :: "db_state \<Rightarrow> int \<Rightarrow> Recipe option" where
  "keyed_lookup_spec d recipe_id =
     (case filter (\<lambda>r. fst r = recipe_id) (recipes d) of
        [] \<Rightarrow> None
      | r # _ \<Rightarrow> Some (Recipe_of_row r))"

text \<open>
  A sequence of calls of the model's three mutating methods, run from a database state.
  The result lists, in order, the id of the row that each \<open>add_recipe\<close> call appended
  (the id of the last row right after the call), followed by the final state.
\<close>

datatype repo_call =
  AddCall pystr pystr pystr "pystr option" | UpdateCall Recipe | DeleteCall int

fun run_calls :: "repo_call list \<Rightarrow> db_state \<Rightarrow> int list \<times> db_state" where
  "run_calls [] d = ([], d)"
| "run_calls (AddCall t g s p # cs) d =
     (let d1 = snd (add_recipe t g s p d)
      in case run_calls cs d1 of (ns, d2) \<Rightarrow> (fst (last (recipes d1)) # ns, d2))"
| "run_calls (UpdateCall recipe # cs) d = run_calls cs (update_recipe recipe d)"
| "run_calls (DeleteCall recipe_id # cs) d = run_calls cs (delete_recipe recipe_id d)"

text \<open>A title is acceptable when it is not empty and stripping leaves it as it is.\<close>

definition trimmed_nonempty :: "pystr \<Rightarrow> bool" where
  "trimmed_nonempty t \<longleftrightarrow> t \<noteq> [] \<and> strip t = t"

definition titles_ok :: "db_state \<Rightarrow> bool" where
  "titles_ok d \<longleftrightarrow> list_all (\<lambda>recipe. trimmed_nonempty (title recipe)) (get_all_recipes d)"

subsection \<open>Concrete states\<close>

text \<open>The strings \<open>"Soup"\<close>, \<open>"Stew"\<close>, \<open>" Soup \n"\<close>, \<open>"   "\<close> and \<open>"a.png"\<close>.\<close>

definition soup :: pystr where
  "soup = [83, 111, 117, 112]"

definition stew :: pystr where
  "stew = [83, 116, 101, 119]"

definition padded_soup :: pystr where
  "padded_soup = [32, 83, 111, 117, 112, 32, 10]"

definition blank :: pystr where
  "blank = [32, 32, 32]"

definition a_png :: pystr where
  "a_png = [97, 46, 112, 110, 103]"

text \<open>A store with two recipes, and one that holds a recipe with id 0.\<close>

definition two_recipes_db :: db_state where
  "two_recipes_db =
     \<lparr>recipes = [(1, soup, [87], [66], None), (2, stew, [], [], Some a_png)],
      sqlite_sequence = 2\<rparr>"

definition zero_id_db :: db_state where
  "zero_id_db = \<lparr>recipes = [(0, soup, [87], [66], None)], sqlite_sequence = 0\<rparr>"

text \<open>
  A window in the given mode whose form holds the given title, the ingredients
  \<open>" W"\<close> and the instructions \<open>"B "\<close>, with the given recipe loaded.
\<close>

definition form_window :: "pystr \<Rightarrow> int option \<Rightarrow> mode \<Rightarrow> RecipeMainWindow" where
  "form_window t loaded m =
     set_mode m
       \<lparr>title_input = t, ingredients_input = [32, 87], instructions_input = [66, 32],
        image_label = Pixmap a_png, add_button_enabled = True, save_button_enabled = False,
        cancel_button_enabled = False, recipe_list = [(soup, 1), (stew, 2)],
        current_item = None, selected_image_path = Some a_png,
        current_recipe_id = loaded, mode = Add\<rparr>"

section \<open>Facts about the store and the scan\<close>

lemma max_rowid_ge: "r \<in> set rs \<Longrightarrow> fst r \<le> max_rowid rs"
  by (induction rs) auto

lemma next_rowid_fresh: "next_rowid d \<notin> fst ` set (recipes d)"
proof
  assume "next_rowid d \<in> fst ` set (recipes d)"
  then obtain r where r: "r \<in> set (recipes d)" and e: "fst r = next_rowid d"
    by auto
  from max_rowid_ge [OF r] e show False
    by (simp add: next_rowid_def)
qed

lemma next_rowid_gt_seq: "sqlite_sequence d < next_rowid d"
  by (simp add: next_rowid_def)

lemma id_Recipe_of_row: "id' (Recipe_of_row r) = fst r"
  by (cases r) simp

lemma title_Recipe_of_row: "title (Recipe_of_row r) = fst (snd r)"
  by (cases r) simp

lemma scan_recipes_append:
  "scan_recipes (xs @ ys) k =
     (case scan_recipes xs k of None \<Rightarrow> scan_recipes ys k | Some r \<Rightarrow> Some r)"
  by (induction xs) auto

lemma scan_recipes_None:
  "scan_recipes (map Recipe_of_row rs) k = None \<longleftrightarrow> k \<notin> fst ` set rs"
  by (induction rs) (auto simp: id_Recipe_of_row)

lemma scan_recipes_filter:
  "scan_recipes (map Recipe_of_row rs) k =
     (case filter (\<lambda>r. fst r = k) rs of [] \<Rightarrow> None | r # _ \<Rightarrow> Some (Recipe_of_row r))"
  by (induction rs) (auto simp: id_Recipe_of_row)

lemma update_rows_absent:
  "k \<notin> fst ` set rs \<Longrightarrow>
     map (\<lambda>r. if fst r = k then (fst r, t, g, s, p) else r) rs = rs"
  by (induction rs) auto

lemma filter_update_rows:
  "filter (\<lambda>r. fst r \<noteq> k) (map (\<lambda>r. if fst r = k then (fst r, t, g, s, p) else r) rs) =
     filter (\<lambda>r. fst r \<noteq> k) rs"
  by (induction rs) auto

lemma mask_update_rows:
  "map (\<lambda>r. if fst r = k then None else Some r)
       (map (\<lambda>r. if fst r = k then (fst r, t, g, s, p) else r) rs) =
     map (\<lambda>r. if fst r = k then None else Some r) rs"
  by (induction rs) auto

lemma scan_update_other:
  "j \<noteq> k \<Longrightarrow>
     scan_recipes
       (map Recipe_of_row (map (\<lambda>r. if fst r = k then (fst r, t, g, s, p) else r) rs)) j =
     scan_recipes (map Recipe_of_row rs) j"
  by (induction rs) (auto simp: id_Recipe_of_row)

lemma scan_delete_other:
  "j \<noteq> k \<Longrightarrow>
     scan_recipes (map Recipe_of_row (filter (\<lambda>r. fst r \<noteq> k) rs)) j =
     scan_recipes (map Recipe_of_row rs) j"
  by (induction rs) (auto simp: id_Recipe_of_row)

lemma recipes_add:
  "recipes (snd (add_recipe t g s p d)) = recipes d @ [(next_rowid d, t, g, s, p)]"
  by (simp add: add_recipe_def db_insert_recipe_def Let_def)

lemma seq_add: "sqlite_sequence (snd (add_recipe t g s p d)) = next_rowid d"
  by (simp add: add_recipe_def db_insert_recipe_def Let_def)

lemma seq_update: "sqlite_sequence (update_recipe r d) = sqlite_sequence d"
  by (simp add: update_recipe_def db_update_recipe_def)

lemma seq_delete: "sqlite_sequence (delete_recipe k d) = sqlite_sequence d"
  by (simp add: delete_recipe_def db_delete_recipe_def)

lemma get_added_recipe:
  "get_recipe_by_id (snd (add_recipe t g s p d)) (next_rowid d) =
     Some \<lparr>id' = next_rowid d, title = t, ingredients = g, instructions = s,
            image_path = p\<rparr>"
proof -
  have "scan_recipes (map Recipe_of_row (recipes d)) (next_rowid d) = None"
    using next_rowid_fresh [of d] by (simp add: scan_recipes_None)
  then show ?thesis
    by (simp add: get_recipe_by_id_def get_all_recipes_def db_get_all_recipes_def
        recipes_add scan_recipes_append)
qed

subsection \<open>Ids assigned along a sequence of calls\<close>

lemma fst_run_calls_add:
  "fst (run_calls (AddCall t g s p # cs) d) =
     next_rowid d # fst (run_calls cs (snd (add_recipe t g s p d)))"
  by (simp add: Let_def recipes_add split: prod.splits)

lemma assigned_gt_seq: "n \<in> set (fst (run_calls cs d)) \<Longrightarrow> sqlite_sequence d < n"
proof (induction cs arbitrary: d)
  case Nil
  then show ?case by simp
next
  case (Cons c cs)
  show ?case
  proof (cases c)
    case (AddCall t g s p)
    let ?d1 = "snd (add_recipe t g s p d)"
    from Cons.prems AddCall
    have "n = next_rowid d \<or> n \<in> set (fst (run_calls cs ?d1))"
      by (simp add: fst_run_calls_add del: run_calls.simps)
    then show ?thesis
    proof
      assume "n = next_rowid d"
      then show ?thesis by (simp add: next_rowid_gt_seq)
    next
      assume "n \<in> set (fst (run_calls cs ?d1))"
      then have "sqlite_sequence ?d1 < n" by (rule Cons.IH)
      then show ?thesis using next_rowid_gt_seq [of d] by (simp add: seq_add)
    qed
  next
    case (UpdateCall r)
    with Cons.prems have "n \<in> set (fst (run_calls cs (update_recipe r d)))" by simp
    then have "sqlite_sequence (update_recipe r d) < n" by (rule Cons.IH)
    then show ?thesis by (simp add: seq_update)
  next
    case (DeleteCall k)
    with Cons.prems have "n \<in> set (fst (run_calls cs (delete_recipe k d)))" by simp
    then have "sqlite_sequence (delete_recipe k d) < n" by (rule Cons.IH)
    then show ?thesis by (simp add: seq_delete)
  qed
qed

lemma distinct_run_calls: "distinct (fst (run_calls cs d))"
proof (induction cs arbitrary: d)
  case Nil
  then show ?case by simp
next
  case (Cons c cs)
  show ?case
  proof (cases c)
    case (AddCall t g s p)
    let ?d1 = "snd (add_recipe t g s p d)"
    have "next_rowid d \<notin> set (fst (run_calls cs ?d1))"
      using assigned_gt_seq [of "next_rowid d" cs ?d1] by (auto simp: seq_add)
    with Cons.IH [of ?d1] AddCall show ?thesis
      by (simp add: fst_run_calls_add del: run_calls.simps)
  qed (simp_all add: Cons.IH)
qed

section \<open>Facts about \<open>strip\<close>\<close>

lemma strip_Nil: "strip [] = []"
  by (simp add: strip_def lstrip_def rstrip_def)

lemma strip_hd: "strip s \<noteq> [] \<Longrightarrow> \<not> isspace (hd (strip s))"
  by (metis append_is_Nil_conv hd_dropWhile last_appendR last_rev lstrip_def
      rev.simps(1) rev_rev_ident rstrip_def strip_def takeWhile_dropWhile_id)

lemma strip_last: "strip s \<noteq> [] \<Longrightarrow> \<not> isspace (last (strip s))"
  by (metis dropWhile_eq_Cons_conv last_rev list.collapse rev.simps(1) rstrip_def strip_def)

lemma strip_fixed:
  "s \<noteq> [] \<Longrightarrow> \<not> isspace (hd s) \<Longrightarrow> \<not> isspace (last s) \<Longrightarrow> strip s = s"
  by (metis dropWhile_eq_self_iff hd_rev lstrip_def rev_rev_ident rstrip_def strip_def)

lemma strip_strip: "strip (strip s) = strip s"
proof (cases "strip s = []")
  case True
  with strip_Nil show ?thesis by simp
next
  case False
  then show ?thesis by (simp add: strip_fixed strip_hd strip_last)
qed

lemma trimmed_nonempty_strip: "strip t \<noteq> [] \<Longrightarrow> trimmed_nonempty (strip t)"
  by (simp add: trimmed_nonempty_def strip_strip)

section \<open>What each handler does to the model\<close>

lemma model_edit: "model (edit_selected_recipe c) = model c"
  by (simp add: edit_selected_recipe_def split: option.splits)

lemma model_cancel: "model (cancel_edit c) = model c"
  by (simp add: cancel_edit_def Let_def split: option.splits)

lemma model_display: "model (display_selected_recipe c) = model c"
  by (simp add: display_selected_recipe_def Let_def split: option.splits)

lemma model_select_image: "model (select_image f n c) = model c"
  by (simp add: select_image_def)

lemma model_delete_selected:
  "model (delete_selected_recipe c) =
     (case get_selected_recipe_id (view c) of
        None \<Rightarrow> model c
      | Some k \<Rightarrow> delete_recipe k (model c))"
  by (simp add: delete_selected_recipe_def refresh_recipe_list_def Let_def
      split: option.splits)

lemma model_add_clicked:
  "model (add_recipe_clicked c) =
     (if mode (view c) = Add \<and> strip (title_input (view c)) \<noteq> []
      then snd (add_recipe (strip (title_input (view c)))
                  (strip (ingredients_input (view c)))
                  (strip (instructions_input (view c)))
                  (selected_image_path (view c)) (model c))
      else model c)"
  by (simp add: add_recipe_clicked_def get_input_data_def refresh_recipe_list_def Let_def)

lemma model_save:
  "model (save_edited_recipe c) =
     (case current_recipe_id (view c) of
        None \<Rightarrow> model c
      | Some k \<Rightarrow>
          if strip (title_input (view c)) = [] then model c
          else update_recipe
                 \<lparr>id' = k, title = strip (title_input (view c)),
                  ingredients = strip (ingredients_input (view c)),
                  instructions = strip (instructions_input (view c)),
                  image_path = selected_image_path (view c)\<rparr> (model c))"
  by (simp add: save_edited_recipe_def get_input_data_def get_current_recipe_id_def
      refresh_recipe_list_def Let_def split: option.splits)

lemma titles_ok_add:
  "titles_ok d \<Longrightarrow> trimmed_nonempty t \<Longrightarrow> titles_ok (snd (add_recipe t g s p d))"
  by (simp add: titles_ok_def get_all_recipes_def db_get_all_recipes_def recipes_add)

lemma titles_ok_update:
  "titles_ok d \<Longrightarrow> trimmed_nonempty (title r) \<Longrightarrow> titles_ok (update_recipe r d)"
  by (auto simp add: titles_ok_def get_all_recipes_def db_get_all_recipes_def
      update_recipe_def db_update_recipe_def list_all_iff title_Recipe_of_row)

lemma titles_ok_delete: "titles_ok d \<Longrightarrow> titles_ok (delete_recipe k d)"
  by (auto simp add: titles_ok_def get_all_recipes_def db_get_all_recipes_def
      delete_recipe_def db_delete_recipe_def list_all_iff)

lemma titles_ok_handle: "titles_ok (model c) \<Longrightarrow> titles_ok (model (handle i c))"
  by (cases i)
    (simp_all add: model_add_clicked model_save model_delete_selected model_edit
      model_cancel model_display model_select_image titles_ok_add titles_ok_update
      titles_ok_delete trimmed_nonempty_strip split: option.splits)

section \<open>The claims\<close>

subsection \<open>C1: blank titles\<close>

text \<open>
  C1, as stated, fails: the Repository operation \<open>add_recipe\<close> (\<open>RecipeModel.add_recipe\<close>)
  makes no check of the title. Called with the empty title or with the title of three
  spaces on the empty store, it creates a row with id 1 holding that title.
\<close>

theorem C1_counterexample:
  "strip [] = [] \<and> strip blank = [] \<and>
   recipes (snd (add_recipe [] [] [] None empty_db)) = [(1, [], [], [], None)] \<and>
   recipes (snd (add_recipe blank [] [] None empty_db)) = [(1, blank, [], [], None)] \<and>
   recipes (snd (add_recipe blank [] [] None empty_db)) \<noteq> recipes empty_db"
  by (simp add: strip_def lstrip_def rstrip_def isspace_def blank_def add_recipe_def
      db_insert_recipe_def next_rowid_def empty_db_def)

text \<open>
  C1, amended: the check is the Controller's. When the add intent arrives with a form
  title that is empty or whitespace-only, the handler creates no row (the store is
  unchanged), and in add mode it changes nothing at all. Consequently every handler of
  the Controller keeps the property that all persisted recipes have a non-empty trimmed
  title.
\<close>

theorem C1_blank_title_rejected_by_controller:
  "(strip (title_input (view c)) = [] \<longrightarrow>
      model (add_recipe_clicked c) = model c \<and>
      (mode (view c) = Add \<longrightarrow> add_recipe_clicked c = c)) \<and>
   (titles_ok (model c) \<longrightarrow> titles_ok (model (handle i c)))"
  by (simp add: model_add_clicked titles_ok_handle)
    (simp add: add_recipe_clicked_def get_input_data_def)

text \<open>
  C1, witness: the add intent on a form whose title is three spaces, in add mode, over a
  store of two recipes; and the save intent that writes the title \<open>" Soup \n"\<close> over
  recipe 2, which is stored as \<open>"Soup"\<close>.
\<close>

theorem C1_blank_title_rejected_by_controller_witness:
  "strip (title_input (view \<lparr>model = two_recipes_db, view = form_window blank None Add\<rparr>)) = [] \<and>
   mode (view \<lparr>model = two_recipes_db, view = form_window blank None Add\<rparr>) = Add \<and>
   titles_ok two_recipes_db \<and>
   add_recipe_clicked \<lparr>model = two_recipes_db, view = form_window blank None Add\<rparr> =
     \<lparr>model = two_recipes_db, view = form_window blank None Add\<rparr> \<and>
   titles_ok
     (model (handle SaveClicked
        \<lparr>model = two_recipes_db, view = form_window padded_soup (Some 2) Edit\<rparr>)) \<and>
   map title
     (get_all_recipes
        (model (handle SaveClicked
           \<lparr>model = two_recipes_db, view = form_window padded_soup (Some 2) Edit\<rparr>))) =
     [soup, soup]"
proof -
  let ?c0 = "\<lparr>model = two_recipes_db, view = form_window blank None Add\<rparr>"
  let ?c1 = "\<lparr>model = two_recipes_db, view = form_window padded_soup (Some 2) Edit\<rparr>"
  have blank: "strip (title_input (view ?c0)) = []"
    by (simp add: form_window_def blank_def strip_def lstrip_def rstrip_def isspace_def)
  have add_mode: "mode (view ?c0) = Add"
    by (simp add: form_window_def)
  have soup_ok: "strip soup = soup"
    by (simp add: soup_def strip_def lstrip_def rstrip_def isspace_def)
  have stew_ok: "strip stew = stew"
    by (simp add: stew_def strip_def lstrip_def rstrip_def isspace_def)
  have ok: "titles_ok two_recipes_db"
    by (simp add: titles_ok_def get_all_recipes_def db_get_all_recipes_def
        two_recipes_db_def trimmed_nonempty_def soup_ok stew_ok)
      (simp add: soup_def stew_def)
  have saved: "map title (get_all_recipes (model (handle SaveClicked ?c1))) = [soup, soup]"
    by (simp add: model_save form_window_def padded_soup_def strip_def lstrip_def
        rstrip_def isspace_def update_recipe_def db_update_recipe_def two_recipes_db_def
        get_all_recipes_def db_get_all_recipes_def soup_def)
  from C1_blank_title_rejected_by_controller [of ?c0 AddClicked] blank add_mode
  have unchanged: "add_recipe_clicked ?c0 = ?c0"
    by simp
  from C1_blank_title_rejected_by_controller [of ?c1 SaveClicked] ok
  have "titles_ok (model (handle SaveClicked ?c1))"
    by simp
  with blank add_mode ok unchanged saved show ?thesis
    by simp
qed

subsection \<open>C2: what insert returns, and the ids it assigns\<close>

text \<open>
  C2, as stated, fails: the Store's insert (\<open>RecipeDatabase.insert_recipe\<close>) returns
  nothing. On the empty store it appends a row with id 1 and its result is \<open>None\<close>,
  not that id.
\<close>

theorem C2_counterexample:
  "map fst (recipes (snd (db_insert_recipe soup [] [] None empty_db))) = [1] \<and>
   fst (db_insert_recipe soup [] [] None empty_db) = None \<and>
   fst (db_insert_recipe soup [] [] None empty_db) \<noteq> Some 1"
  by (simp add: db_insert_recipe_def next_rowid_def empty_db_def)

text \<open>
  C2, amended: the Store's insert and the Repository's add return nothing. Insert appends
  one row holding the given fields under an id that no row of the table has, and along
  every sequence of add calls (updates and deletes may come in between) the ids given to
  the appended rows are pairwise distinct.
\<close>

theorem C2_insert_assigns_distinct_ids:
  "fst (db_insert_recipe t g s p d) = None \<and>
   fst (add_recipe t g s p d) = None \<and>
   recipes (snd (db_insert_recipe t g s p d)) = recipes d @ [(next_rowid d, t, g, s, p)] \<and>
   next_rowid d \<notin> fst ` set (recipes d) \<and>
   distinct (fst (run_calls cs d))"
  by (simp add: db_insert_recipe_def Let_def add_recipe_def next_rowid_fresh
      distinct_run_calls)

subsection \<open>C3: round trip\<close>

text \<open>
  C3, as stated, fails: the Repository's add does not trim. The title \<open>" Soup \n"\<close> added
  to the empty store is read back unchanged, although stripping it gives \<open>"Soup"\<close>.
\<close>

theorem C3_counterexample:
  "map_option title
     (get_recipe_by_id (snd (add_recipe padded_soup [] [] None empty_db)) 1) =
     Some padded_soup \<and>
   strip padded_soup = soup \<and>
   map_option title
     (get_recipe_by_id (snd (add_recipe padded_soup [] [] None empty_db)) 1) \<noteq>
     Some (strip padded_soup)"
  by (simp add: get_recipe_by_id_def get_all_recipes_def db_get_all_recipes_def
      add_recipe_def db_insert_recipe_def next_rowid_def empty_db_def padded_soup_def
      soup_def strip_def lstrip_def rstrip_def isspace_def)

text \<open>
  C3, amended: for any recipe added via the Repository with fields (t, i, s, p), it is the
  last of all recipes, and \<open>get_recipe_by_id\<close> on the id it was given returns a Recipe
  with exactly these fields, untrimmed: the Repository's add delegates to the Store with
  the text as given. The trimming is the Controller's: for a recipe added by the add
  intent in add mode from a form (t, i, s, p) with a non-blank title, the lookup returns
  title = trim(t), ingredients = trim(i), instructions = trim(s) and image_path = p.
\<close>

theorem C3_round_trip:
  "get_recipe_by_id (snd (add_recipe t g s p d)) (next_rowid d) =
     Some \<lparr>id' = next_rowid d, title = t, ingredients = g, instructions = s,
            image_path = p\<rparr> \<and>
   last (get_all_recipes (snd (add_recipe t g s p d))) =
     \<lparr>id' = next_rowid d, title = t, ingredients = g, instructions = s, image_path = p\<rparr> \<and>
   (mode (view c) = Add \<and> strip (title_input (view c)) \<noteq> [] \<longrightarrow>
      get_recipe_by_id (model (add_recipe_clicked c)) (next_rowid (model c)) =
        Some \<lparr>id' = next_rowid (model c), title = strip (title_input (view c)),
               ingredients = strip (ingredients_input (view c)),
               instructions = strip (instructions_input (view c)),
               image_path = selected_image_path (view c)\<rparr>)"
  by (simp add: get_added_recipe model_add_clicked get_all_recipes_def
      db_get_all_recipes_def recipes_add)

text \<open>
  C3, witness: the add intent in add mode on the form \<open>(" Soup \n", " W", "B ", "a.png")\<close>
  over the store of two recipes stores recipe 3 as \<open>("Soup", "W", "B", "a.png")\<close>.
\<close>

theorem C3_round_trip_witness:
  "mode (view \<lparr>model = two_recipes_db, view = form_window padded_soup None Add\<rparr>) = Add \<and>
   strip (title_input
       (view \<lparr>model = two_recipes_db, view = form_window padded_soup None Add\<rparr>)) \<noteq> [] \<and>
   get_recipe_by_id
     (model (add_recipe_clicked
        \<lparr>model = two_recipes_db, view = form_window padded_soup None Add\<rparr>)) 3 =
     Some \<lparr>id' = 3, title = soup, ingredients = [87], instructions = [66],
            image_path = Some a_png\<rparr>"
proof -
  let ?c = "\<lparr>model = two_recipes_db, view = form_window padded_soup None Add\<rparr>"
  have m: "mode (view ?c) = Add"
    by (simp add: form_window_def)
  have t: "strip (title_input (view ?c)) = soup"
    by (simp add: form_window_def padded_soup_def soup_def strip_def lstrip_def
        rstrip_def isspace_def)
  have g: "strip (ingredients_input (view ?c)) = [87]"
    by (simp add: form_window_def strip_def lstrip_def rstrip_def isspace_def)
  have s: "strip (instructions_input (view ?c)) = [66]"
    by (simp add: form_window_def strip_def lstrip_def rstrip_def isspace_def)
  have p: "selected_image_path (view ?c) = Some a_png"
    by (simp add: form_window_def)
  have n: "next_rowid (model ?c) = 3"
    by (simp add: next_rowid_def two_recipes_db_def)
  have ne: "soup \<noteq> []"
    by (simp add: soup_def)
  from C3_round_trip [of _ _ _ _ _ ?c] m t ne
  have "get_recipe_by_id (model (add_recipe_clicked ?c)) (next_rowid (model ?c)) =
          Some \<lparr>id' = next_rowid (model ?c), title = strip (title_input (view ?c)),
                 ingredients = strip (ingredients_input (view ?c)),
                 instructions = strip (instructions_input (view ?c)),
                 image_path = selected_image_path (view ?c)\<rparr>"
    by simp
  with m t g s p n ne show ?thesis
    by simp
qed

subsection \<open>C4: update of a missing id\<close>

text \<open>
  C4: for every store state, an update with an id that matches no existing row (the
  lookup of the id finds nothing) leaves the state as it is, for the Store's update and
  for the Repository's: no row is created and every row is unchanged. The operation is a
  total function of the state, with no error result: the \<open>UPDATE\<close> statement selects
  no row and checks nothing.
\<close>

theorem C4_update_missing_id_is_noop:
  assumes "get_recipe_by_id d recipe_id = None"
  shows "db_update_recipe recipe_id t g s p d = d \<and>
         update_recipe
           \<lparr>id' = recipe_id, title = t, ingredients = g, instructions = s,
            image_path = p\<rparr> d = d"
proof -
  from assms have "recipe_id \<notin> fst ` set (recipes d)"
    by (simp add: get_recipe_by_id_def get_all_recipes_def db_get_all_recipes_def
        scan_recipes_None)
  then show ?thesis
    by (simp add: update_recipe_def db_update_recipe_def update_rows_absent)
qed

text \<open>C4, witness: Scenario E, an update of id 999 on the store of two recipes.\<close>

theorem C4_update_missing_id_is_noop_witness:
  "get_recipe_by_id two_recipes_db 999 = None \<and>
   db_update_recipe 999 stew [] [] None two_recipes_db = two_recipes_db \<and>
   update_recipe
     \<lparr>id' = 999, title = stew, ingredients = [], instructions = [], image_path = None\<rparr>
     two_recipes_db = two_recipes_db"
proof -
  have h: "get_recipe_by_id two_recipes_db 999 = None"
    by (simp add: get_recipe_by_id_def get_all_recipes_def db_get_all_recipes_def
        two_recipes_db_def)
  from C4_update_missing_id_is_noop [OF h, of stew "[]" "[]" None] h show ?thesis
    by simp
qed

subsection \<open>C5: delete is final\<close>

text \<open>
  C5: for every store state and every id, after \<open>delete_recipe\<close> of the id the lookup
  \<open>get_recipe_by_id\<close> of it returns \<open>None\<close>, and a second \<open>delete_recipe\<close> of the same
  id leaves the resulting state unchanged. Deleting is a total function of the state, with
  no error result.
\<close>

theorem C5_delete_is_final:
  "get_recipe_by_id (delete_recipe recipe_id d) recipe_id = None \<and>
   delete_recipe recipe_id (delete_recipe recipe_id d) = delete_recipe recipe_id d"
  by (auto simp add: get_recipe_by_id_def get_all_recipes_def db_get_all_recipes_def
      delete_recipe_def db_delete_recipe_def scan_recipes_None)

subsection \<open>C6: update is idempotent\<close>

text \<open>
  C6: applying the same \<open>update_recipe\<close> twice leaves the store, and so the stored row,
  identical to applying it once.
\<close>

theorem C6_update_idempotent:
  "update_recipe recipe (update_recipe recipe d) = update_recipe recipe d"
  by (simp add: update_recipe_def db_update_recipe_def)

subsection \<open>C7: the add intent outside add mode\<close>

text \<open>
  C7: when the add intent arrives while the mode is not \<open>add\<close>, the handler clears the
  form, discards the current recipe id, switches the mode to \<open>add\<close> and leaves the store
  as it is. A second add intent right after it finds the empty form and changes nothing,
  so two consecutive add intents from a non-add mode leave the store unchanged: the form
  content is committed at most once (in fact not at all).
\<close>

theorem C7_add_outside_add_mode_arms:
  assumes "mode (view c) \<noteq> Add"
  shows "title_input (view (add_recipe_clicked c)) = [] \<and>
         ingredients_input (view (add_recipe_clicked c)) = [] \<and>
         instructions_input (view (add_recipe_clicked c)) = [] \<and>
         selected_image_path (view (add_recipe_clicked c)) = None \<and>
         image_label (view (add_recipe_clicked c)) = NoImageSelected \<and>
         current_recipe_id (view (add_recipe_clicked c)) = None \<and>
         mode (view (add_recipe_clicked c)) = Add \<and>
         model (add_recipe_clicked c) = model c \<and>
         add_recipe_clicked (add_recipe_clicked c) = add_recipe_clicked c \<and>
         model (add_recipe_clicked (add_recipe_clicked c)) = model c"
  using assms
  by (simp add: add_recipe_clicked_def clear_inputs_def get_input_data_def strip_Nil)

text \<open>
  C7, witness: the add intent in view mode, with recipe 2 loaded and \<open>"Soup"\<close> typed
  into the title field.
\<close>

theorem C7_add_outside_add_mode_arms_witness:
  "mode (view \<lparr>model = two_recipes_db, view = form_window soup (Some 2) View\<rparr>) \<noteq> Add \<and>
   title_input (view \<lparr>model = two_recipes_db, view = form_window soup (Some 2) View\<rparr>) =
     soup \<and>
   view (add_recipe_clicked
          \<lparr>model = two_recipes_db, view = form_window soup (Some 2) View\<rparr>) =
     \<lparr>title_input = [], ingredients_input = [], instructions_input = [],
      image_label = NoImageSelected, add_button_enabled = True,
      save_button_enabled = False, cancel_button_enabled = False,
      recipe_list = [(soup, 1), (stew, 2)], current_item = None,
      selected_image_path = None, current_recipe_id = None, mode = Add\<rparr> \<and>
   model (add_recipe_clicked
            (add_recipe_clicked
               \<lparr>model = two_recipes_db, view = form_window soup (Some 2) View\<rparr>)) =
     two_recipes_db"
proof -
  let ?c = "\<lparr>model = two_recipes_db, view = form_window soup (Some 2) View\<rparr>"
  have h: "mode (view ?c) \<noteq> Add"
    by (simp add: form_window_def)
  have v: "view (add_recipe_clicked ?c) =
     \<lparr>title_input = [], ingredients_input = [], instructions_input = [],
      image_label = NoImageSelected, add_button_enabled = True,
      save_button_enabled = False, cancel_button_enabled = False,
      recipe_list = [(soup, 1), (stew, 2)], current_item = None,
      selected_image_path = None, current_recipe_id = None, mode = Add\<rparr>"
    by (simp add: add_recipe_clicked_def form_window_def clear_inputs_def)
  from C7_add_outside_add_mode_arms [OF h]
  have "model (add_recipe_clicked (add_recipe_clicked ?c)) = two_recipes_db"
    by simp
  with h v show ?thesis
    by (simp add: form_window_def)
qed

subsection \<open>C8: cancel\<close>

text \<open>
  C8: the cancel intent with a current recipe id that is set and not 0, whose recipe is
  in the store, loads that recipe's persisted details into the form (title, ingredients,
  instructions, and the image path when it is not empty), keeps it as the current recipe
  and sets the mode to \<open>add\<close>. A current recipe id equal to 0 is treated as absent:
  cancel then clears the form, whether or not the store holds a recipe with id 0. The
  store is unchanged in both cases.
\<close>

theorem C8_cancel_reloads_or_clears:
  "(current_recipe_id (view c) = Some k \<and> k \<noteq> 0 \<and>
      get_recipe_by_id (model c) k = Some recipe \<longrightarrow>
      cancel_edit c = c\<lparr>view := set_mode Add (show_recipe_details recipe (view c))\<rparr> \<and>
      title_input (view (cancel_edit c)) = title recipe \<and>
      ingredients_input (view (cancel_edit c)) = ingredients recipe \<and>
      instructions_input (view (cancel_edit c)) = instructions recipe \<and>
      selected_image_path (view (cancel_edit c)) =
        (if truthy_str (image_path recipe) then image_path recipe else None) \<and>
      current_recipe_id (view (cancel_edit c)) = Some (id' recipe) \<and>
      mode (view (cancel_edit c)) = Add \<and>
      model (cancel_edit c) = model c) \<and>
   (current_recipe_id (view c) = Some 0 \<longrightarrow>
      cancel_edit c = c\<lparr>view := set_mode Add (clear_inputs (view c))\<rparr> \<and>
      title_input (view (cancel_edit c)) = [] \<and>
      ingredients_input (view (cancel_edit c)) = [] \<and>
      instructions_input (view (cancel_edit c)) = [] \<and>
      selected_image_path (view (cancel_edit c)) = None \<and>
      current_recipe_id (view (cancel_edit c)) = None \<and>
      mode (view (cancel_edit c)) = Add \<and>
      model (cancel_edit c) = model c)"
  by (simp add: cancel_edit_def get_current_recipe_id_def show_recipe_details_def
      clear_inputs_def Let_def)

text \<open>
  C8, witness: cancel in edit mode with recipe 2 loaded and its title overwritten in the
  form restores \<open>"Stew"\<close>; cancel with current recipe id 0 over a store that holds
  recipe 0 clears the form and does not reload that recipe.
\<close>

theorem C8_cancel_reloads_or_clears_witness:
  "get_recipe_by_id two_recipes_db 2 =
     Some \<lparr>id' = 2, title = stew, ingredients = [], instructions = [],
            image_path = Some a_png\<rparr> \<and>
   title_input
     (view (cancel_edit \<lparr>model = two_recipes_db, view = form_window soup (Some 2) Edit\<rparr>)) =
     stew \<and>
   mode
     (view (cancel_edit \<lparr>model = two_recipes_db, view = form_window soup (Some 2) Edit\<rparr>)) =
     Add \<and>
   get_recipe_by_id zero_id_db 0 =
     Some \<lparr>id' = 0, title = soup, ingredients = [87], instructions = [66],
            image_path = None\<rparr> \<and>
   title_input
     (view (cancel_edit \<lparr>model = zero_id_db, view = form_window stew (Some 0) Edit\<rparr>)) =
     [] \<and>
   current_recipe_id
     (view (cancel_edit \<lparr>model = zero_id_db, view = form_window stew (Some 0) Edit\<rparr>)) =
     None"
proof -
  let ?c2 = "\<lparr>model = two_recipes_db, view = form_window soup (Some 2) Edit\<rparr>"
  let ?c0 = "\<lparr>model = zero_id_db, view = form_window stew (Some 0) Edit\<rparr>"
  let ?r2 = "\<lparr>id' = 2, title = stew, ingredients = [], instructions = [],
              image_path = Some a_png\<rparr>"
  have cur2: "current_recipe_id (view ?c2) = Some 2"
    by (simp add: form_window_def)
  have get2: "get_recipe_by_id (model ?c2) 2 = Some ?r2"
    by (simp add: get_recipe_by_id_def get_all_recipes_def db_get_all_recipes_def
        two_recipes_db_def)
  have cur0: "current_recipe_id (view ?c0) = Some 0"
    by (simp add: form_window_def)
  have get0: "get_recipe_by_id zero_id_db 0 =
      Some \<lparr>id' = 0, title = soup, ingredients = [87], instructions = [66],
             image_path = None\<rparr>"
    by (simp add: get_recipe_by_id_def get_all_recipes_def db_get_all_recipes_def
        zero_id_db_def)
  have nz: "(2::int) \<noteq> 0"
    by simp
  from C8_cancel_reloads_or_clears [of ?c2 2 ?r2] cur2 nz get2
  have reload: "title_input (view (cancel_edit ?c2)) = title ?r2 \<and>
                mode (view (cancel_edit ?c2)) = Add"
    by blast
  from C8_cancel_reloads_or_clears [of ?c0 0 ?r2] cur0
  have clear: "title_input (view (cancel_edit ?c0)) = [] \<and>
               current_recipe_id (view (cancel_edit ?c0)) = None"
    by blast
  from get2 get0 reload clear show ?thesis
    by simp
qed

subsection \<open>C9: the linear scan and the keyed lookup\<close>

text \<open>
  C9: for every store state and every id, \<open>get_recipe_by_id\<close>, the linear scan over
  \<open>get_all_recipes\<close>, returns the same result as the direct keyed lookup in the store.
\<close>

theorem C9_scan_equals_keyed_lookup:
  "get_recipe_by_id d recipe_id = keyed_lookup_spec d recipe_id"
  unfolding get_recipe_by_id_def get_all_recipes_def db_get_all_recipes_def
    keyed_lookup_spec_def
  by (rule scan_recipes_filter)

subsection \<open>C10: update and delete touch only the matching row\<close>

text \<open>
  C10: the Store's update and delete of an id touch only the rows with that id. After an
  update the table has, position by position, the same rows as before wherever the id
  differs, and rows with the id wherever they were. After either operation the sequence
  of the rows with a different id is the same as before, with all their fields and in the
  same order, and the lookup of any other id returns what it returned before.
\<close>

theorem C10_update_delete_frame:
  "map (\<lambda>r. if fst r = k then None else Some r)
       (db_get_all_recipes (db_update_recipe k t g s p d)) =
     map (\<lambda>r. if fst r = k then None else Some r) (db_get_all_recipes d) \<and>
   filter (\<lambda>r. fst r \<noteq> k) (db_get_all_recipes (db_update_recipe k t g s p d)) =
     filter (\<lambda>r. fst r \<noteq> k) (db_get_all_recipes d) \<and>
   filter (\<lambda>r. fst r \<noteq> k) (db_get_all_recipes (db_delete_recipe k d)) =
     filter (\<lambda>r. fst r \<noteq> k) (db_get_all_recipes d) \<and>
   (j \<noteq> k \<longrightarrow>
      get_recipe_by_id (db_update_recipe k t g s p d) j = get_recipe_by_id d j \<and>
      get_recipe_by_id (db_delete_recipe k d) j = get_recipe_by_id d j)"
  by (simp add: db_update_recipe_def db_delete_recipe_def db_get_all_recipes_def
      filter_update_rows get_recipe_by_id_def get_all_recipes_def scan_update_other
      scan_delete_other mask_update_rows del: map_map)

text \<open>
  C10, witness: on the store of two recipes, updating or deleting recipe 1 leaves recipe 2
  as it was.
\<close>

theorem C10_update_delete_frame_witness:
  "(2::int) \<noteq> 1 \<and>
   get_recipe_by_id (db_update_recipe 1 stew [] [] None two_recipes_db) 2 =
     Some \<lparr>id' = 2, title = stew, ingredients = [], instructions = [],
            image_path = Some a_png\<rparr> \<and>
   get_recipe_by_id (db_delete_recipe 1 two_recipes_db) 2 =
     Some \<lparr>id' = 2, title = stew, ingredients = [], instructions = [],
            image_path = Some a_png\<rparr>"
proof -
  have h: "(2::int) \<noteq> 1"
    by simp
  have before: "get_recipe_by_id two_recipes_db 2 =
      Some \<lparr>id' = 2, title = stew, ingredients = [], instructions = [],
             image_path = Some a_png\<rparr>"
    by (simp add: get_recipe_by_id_def get_all_recipes_def db_get_all_recipes_def
        two_recipes_db_def)
  from C10_update_delete_frame [of 1 stew "[]" "[]" None two_recipes_db 2] h before
  show ?thesis
    by simp
qed

end
